theory Spec2Isabelle
  imports Complex_Main
begin

section \<open>Double-precision arithmetic\<close>

text \<open>
  The servo model computes on C++ \<^verbatim>\<open>double\<close>. A finite double is a real number, so the
  type is \<^typ>\<open>real\<close>; what makes it a double is that the result of every inexact operation
  is rounded to the nearest number with a 53-bit significand, ties to the even significand.
  The model covers finite values of the normal range: NaN, the infinities, the sign of zero,
  overflow and subnormal numbers are outside it.
\<close>

type_synonym double = real

text \<open>Round to the nearest integer, ties to the even one.\<close>

definition round_half_even :: "real \<Rightarrow> int" where
  "round_half_even m =
     (let f = \<lfloor>m\<rfloor>; d = m - of_int f
      in if d < 1 / 2 then f
         else if 1 / 2 < d then f + 1
         else if even f then f else f + 1)"

text \<open>
  The binary exponent of a positive number: \<open>2 powi binade x \<le> x < 2 powi (binade x + 1)\<close>.
  The recursion halves or doubles \<open>x\<close> until it lies in \<open>[1, 2)\<close>; \<open>binade_measure\<close> counts
  the steps that remain.
\<close>

definition binade_measure :: "real \<Rightarrow> nat" where
  "binade_measure x = nat \<lfloor>\<bar>log 2 x\<bar>\<rfloor> + (if x < 1 then 1 else 0)"

function binade :: "real \<Rightarrow> int" where
  "binade x =
     (if x \<le> 0 then 0
      else if 2 \<le> x then binade (x / 2) + 1
      else if x < 1 then binade (2 * x) - 1
      else 0)"
  by pat_completeness auto
termination
proof (relation "measure binade_measure")
  show "wf (measure binade_measure)"
    by simp
next
  fix x :: real
  assume "2 \<le> x"
  then have l: "log 2 (x / 2) = log 2 x - 1"
    by (simp add: log_divide)
  have "1 \<le> log 2 x"
    using \<open>2 \<le> x\<close> by (simp add: le_log_iff)
  then have "0 \<le> log 2 x - 1" "\<lfloor>log 2 x - 1\<rfloor> = \<lfloor>log 2 x\<rfloor> - 1" "1 \<le> \<lfloor>log 2 x\<rfloor>"
    by simp_all
  then have "binade_measure (x / 2) < binade_measure x"
    using \<open>2 \<le> x\<close> unfolding binade_measure_def l by simp
  then show "(x / 2, x) \<in> measure binade_measure"
    by simp
next
  fix x :: real
  assume pos: "\<not> x \<le> 0" and lt: "x < 1"
  have "binade_measure (2 * x) < binade_measure x"
  proof (cases "2 * x < 1")
    case True
    have l: "log 2 (2 * x) = log 2 x + 1"
      using pos by (simp add: log_mult)
    have "log 2 (2 * x) < 0"
      using pos True by simp
    then have "log 2 x + 1 < 0"
      unfolding l .
    then have "\<bar>log 2 x + 1\<bar> = \<bar>log 2 x\<bar> - 1" "1 \<le> \<lfloor>\<bar>log 2 x\<bar>\<rfloor>"
      by simp_all
    then have "nat \<lfloor>\<bar>log 2 x + 1\<bar>\<rfloor> < nat \<lfloor>\<bar>log 2 x\<bar>\<rfloor>"
      by simp
    then show ?thesis
      using lt True unfolding binade_measure_def l by simp
  next
    case False
    have "0 \<le> log 2 (2 * x)" "log 2 (2 * x) < 1"
      using pos lt False by (simp_all add: log_less_iff)
    then have "\<lfloor>\<bar>log 2 (2 * x)\<bar>\<rfloor> = 0"
      by (simp add: floor_eq_iff)
    then show ?thesis
      using lt False unfolding binade_measure_def by simp
  qed
  then show "(2 * x, x) \<in> measure binade_measure"
    by simp
qed

declare binade.simps [simp del]

text \<open>
  Rounding to double: the significand \<open>x / 2 powi e\<close> of a positive \<open>x\<close> lies in
  \<open>[2^52, 2^53)\<close> and is rounded to an integer; a negative number rounds as its magnitude.
\<close>

definition rnd_pos :: "real \<Rightarrow> real" where
  "rnd_pos x = (let e = binade x - 52 in of_int (round_half_even (x / 2 powi e)) * 2 powi e)"

definition rnd :: "real \<Rightarrow> double" where
  "rnd x = (if x = 0 then 0 else sgn x * rnd_pos \<bar>x\<bar>)"

definition dadd :: "double \<Rightarrow> double \<Rightarrow> double" where
  "dadd x y = rnd (x + y)"

definition dsub :: "double \<Rightarrow> double \<Rightarrow> double" where
  "dsub x y = rnd (x - y)"

definition dmul :: "double \<Rightarrow> double \<Rightarrow> double" where
  "dmul x y = rnd (x * y)"

text \<open>The conversion of an \<^verbatim>\<open>int\<close> operand to double.\<close>

definition int_to_double :: "int \<Rightarrow> double" where
  "int_to_double n = rnd (of_int n)"

subsection \<open>The functions of \<^verbatim>\<open><cmath>\<close> and \<^verbatim>\<open><algorithm>\<close> the servo model calls\<close>

text \<open>
  \<^verbatim>\<open>std::fmod(x, y)\<close> is \<open>x - n * y\<close> with \<open>n\<close> the quotient \<open>x / y\<close> truncated towards
  zero; its result is exact. (For \<open>y = 0\<close> the C function returns NaN; the servo model
  only divides by \<^verbatim>\<open>2 * M_PI\<close>.)
\<close>

definition trunc_toward_zero :: "real \<Rightarrow> int" where
  "trunc_toward_zero t = (if 0 \<le> t then \<lfloor>t\<rfloor> else \<lceil>t\<rceil>)"

definition fmod :: "double \<Rightarrow> double \<Rightarrow> double" where
  "fmod x y = x - of_int (trunc_toward_zero (x / y)) * y"

text \<open>\<^verbatim>\<open>std::copysign(x, y)\<close>: the magnitude of \<open>x\<close> with the sign of \<open>y\<close>.\<close>

definition copysign :: "double \<Rightarrow> double \<Rightarrow> double" where
  "copysign x y = (if y < 0 then - \<bar>x\<bar> else \<bar>x\<bar>)"

text \<open>\<^verbatim>\<open>std::min(a, b)\<close> is \<^verbatim>\<open>(b < a) ? b : a\<close> and \<^verbatim>\<open>std::max(a, b)\<close> is \<^verbatim>\<open>(a < b) ? b : a\<close>.\<close>

definition std_min :: "double \<Rightarrow> double \<Rightarrow> double" where
  "std_min a b = (if b < a then b else a)"

definition std_max :: "double \<Rightarrow> double \<Rightarrow> double" where
  "std_max a b = (if a < b then b else a)"

text \<open>
  \<^verbatim>\<open>M_PI\<close> is the double nearest to \<open>\<pi>\<close>, \<^verbatim>\<open>0x400921FB54442D18\<close>, and \<^verbatim>\<open>1e-8\<close> the double
  nearest to \<open>10^-8\<close>.
\<close>

definition M_PI :: double where
  "M_PI = 884279719003555 / 2 ^ 48"

definition lit_1e_8 :: double where
  "lit_1e_8 = rnd (1 / 10 ^ 8)"

section \<open>The servo motor model\<close>

subsection \<open>Data\<close>

datatype ControlMode = kVelocity | kPosition | kForce

text \<open>
  Modelled from the spec: the constants of namespace \<^verbatim>\<open>spin\<close> are declared in
  \<^verbatim>\<open>common.h\<close>; the spin direction is CW = -1 or CCW = +1.
\<close>

definition CCW :: int where
  "CCW = 1"

definition CW :: int where
  "CW = - 1"

text \<open>
  Modelled from the spec: the PID Integrator is an external primitive (\<^verbatim>\<open>gazebo::common::PID\<close>).
  \<^verbatim>\<open>Init(p, i, d, iMax, iMin, cmdMax, cmdMin)\<close> configures the gains and the clamps and
  starts from zeroed accumulators. \<^verbatim>\<open>Update(error, dt)\<close> advances the accumulators and returns
  the command; its numerics are not part of this program, so the per-tick update takes it as
  a parameter.
\<close>

record PID =
  pGain :: double
  iGain :: double
  dGain :: double
  iMax :: double
  iMin :: double
  cmdMax :: double
  cmdMin :: double
  pErrLast :: double
  pErr :: double
  iErr :: double
  dErr :: double
  cmd :: double

definition PID_Init ::
  "double \<Rightarrow> double \<Rightarrow> double \<Rightarrow> double \<Rightarrow> double \<Rightarrow> double \<Rightarrow> double \<Rightarrow> PID" where
  "PID_Init p i d imax imin cmdmax cmdmin =
     \<lparr>pGain = p, iGain = i, dGain = d, iMax = imax, iMin = imin,
      cmdMax = cmdmax, cmdMin = cmdmin,
      pErrLast = 0, pErr = 0, iErr = 0, dErr = 0, cmd = 0\<rparr>"

type_synonym PID_Update = "PID \<Rightarrow> double \<Rightarrow> double \<Rightarrow> double \<times> PID"

text \<open>
  The joint of the physics backend: the state the controller reads, and the forces it has
  been commanded through \<^verbatim>\<open>SetForce\<close>, oldest first.
\<close>

record Joint =
  joint_position :: double
  joint_velocity :: double
  joint_force :: double
  set_force_log :: "double list"

definition SetForce :: "Joint \<Rightarrow> double \<Rightarrow> Joint" where
  "SetForce j v = j\<lparr>set_force_log := set_force_log j @ [v]\<rparr>"

text \<open>
  The fields of \<^verbatim>\<open>MotorModelServo\<close>, followed by the fields it inherits from \<^verbatim>\<open>MotorModel\<close>
  and uses: the measured state, the reference commands and the sampling time. A field has
  the name it has in the source without the final underscore (\<open>mode\<close> is \<^verbatim>\<open>mode_\<close>).
\<close>

record MotorModelServo =
  mode :: ControlMode
  joint_name :: string
  turning_direction :: int
  max_rot_velocity :: double
  max_torque :: double
  max_rot_position :: double
  min_rot_position :: double
  position_zero_offset :: double
  pid :: PID
  joint :: Joint
  motor_rot_pos :: double
  motor_rot_vel :: double
  motor_rot_effort :: double
  ref_motor_rot_pos :: double
  ref_motor_rot_vel :: double
  ref_motor_rot_effort :: double
  sampling_time :: double

subsection \<open>Configuration\<close>

text \<open>
  An SDF element, as far as \<^verbatim>\<open>InitializeParams\<close> reads it: its children that hold a string,
  its children that hold a double, and for the motor element the child element
  \<^verbatim>\<open>joint_control_pid\<close>.
\<close>

record sdf_element =
  sdf_strings :: "string \<rightharpoonup> string"
  sdf_doubles :: "string \<rightharpoonup> double"

record motor_element = sdf_element +
  joint_control_pid :: "sdf_element option"

text \<open>
  Modelled from the spec: \<^verbatim>\<open>getSdfParam\<close> is declared in \<^verbatim>\<open>common.h\<close>. It stores the value
  of the named child in its output parameter when the child is present and the given
  default otherwise; the model returns the stored value.
\<close>

definition getSdfParam :: "'a sdf_element_scheme \<Rightarrow> string \<Rightarrow> double \<Rightarrow> double" where
  "getSdfParam sdf name default_value =
     (case sdf_doubles sdf name of Some v \<Rightarrow> v | None \<Rightarrow> default_value)"

text \<open>
  \<^verbatim>\<open>InitializeParams\<close>. In the spin-direction block the \<^verbatim>\<open>"ccw"\<close> branch assigns to the local
  string \<^verbatim>\<open>turning_direction\<close> (here \<open>spin_direction\<close>), so the field keeps its value. In the PID block the value
  read from \<^verbatim>\<open>"iMax"\<close> is stored in the local \<^verbatim>\<open>p\<close>, and the local \<^verbatim>\<open>iMax\<close> is passed to
  \<^verbatim>\<open>Init\<close> without having been assigned: \<open>iMax_uninit\<close> stands for the indeterminate value
  it holds; \<open>pid_elem\<close> is the local \<^verbatim>\<open>pid\<close>. The log messages are not modelled.
\<close>

definition InitializeParams_pid :: "motor_element \<Rightarrow> double \<Rightarrow> PID" where
  "InitializeParams_pid motor iMax_uninit =
     (case joint_control_pid motor of
        Some pid_elem \<Rightarrow>
          (let p = getSdfParam pid_elem ''p'' 0;
               i = getSdfParam pid_elem ''i'' 0;
               d = getSdfParam pid_elem ''d'' 0;
               p = getSdfParam pid_elem ''iMax'' 0;
               iMin = getSdfParam pid_elem ''iMin'' 0;
               cmdMax = getSdfParam pid_elem ''cmdMax'' 0;
               cmdMin = getSdfParam pid_elem ''cmdMin'' 0
           in PID_Init p i d iMax_uninit iMin cmdMax cmdMin)
      | None \<Rightarrow> PID_Init 0 0 0 0 0 0 0)"

definition InitializeParams ::
  "motor_element \<Rightarrow> double \<Rightarrow> MotorModelServo \<Rightarrow> MotorModelServo" where
  "InitializeParams motor iMax_uninit s =
     (let s = (case sdf_strings motor ''controlMode'' of
                 Some motor_type \<Rightarrow>
                   if motor_type = ''velocity'' then s\<lparr>mode := kVelocity\<rparr>
                   else if motor_type = ''position'' then s\<lparr>mode := kPosition\<rparr>
                   else if motor_type = ''force'' then s\<lparr>mode := kForce\<rparr>
                   else s
               | None \<Rightarrow> s);
          s = (case sdf_strings motor ''spinDirection'' of
                 Some spin_direction \<Rightarrow>
                   if spin_direction = ''cw'' then s\<lparr>turning_direction := CW\<rparr>
                   else s
               | None \<Rightarrow> s);
          s = s\<lparr>max_rot_velocity := getSdfParam motor ''maxRotVelocity'' (max_rot_velocity s)\<rparr>;
          s = s\<lparr>max_rot_position := getSdfParam motor ''maxRotPosition'' (max_rot_position s)\<rparr>;
          s = s\<lparr>min_rot_position := getSdfParam motor ''minRotPosition'' (min_rot_position s)\<rparr>;
          s = s\<lparr>position_zero_offset := getSdfParam motor ''zeroOffset'' (position_zero_offset s)\<rparr>
      in s\<lparr>pid := InitializeParams_pid motor iMax_uninit\<rparr>)"

subsection \<open>Angle normalization\<close>

definition NormalizeAngle :: "double \<Rightarrow> double" where
  "NormalizeAngle input =
     (let wrapped = fmod \<bar>input\<bar> (dmul 2 M_PI);
          wrapped = copysign wrapped input;
          wrapped = (if \<bar>dsub wrapped (dmul 2 M_PI)\<bar> < lit_1e_8 then 0 else wrapped);
          wrapped = (if wrapped < 0 then dadd wrapped (dmul 2 M_PI) else wrapped)
      in wrapped)"

subsection \<open>The per-tick update\<close>

text \<open>
  The locals of the three branches of \<^verbatim>\<open>UpdateForcesAndMoments\<close>, as functions of the
  state that holds the measured values read at the start of the call.
\<close>

definition kPosition_ref_pos :: "MotorModelServo \<Rightarrow> double" where
  "kPosition_ref_pos s =
     std_max (std_min (ref_motor_rot_pos s) (max_rot_position s)) (min_rot_position s)"

definition kPosition_err :: "MotorModelServo \<Rightarrow> double" where
  "kPosition_err s =
     (let err = dsub (NormalizeAngle (motor_rot_pos s)) (NormalizeAngle (kPosition_ref_pos s));
          err = (if M_PI < err then dsub err (dmul 2 M_PI) else err);
          err = (if \<bar>dsub err M_PI\<bar> < lit_1e_8 then M_PI else err)
      in err)"

definition kForce_ref_torque :: "MotorModelServo \<Rightarrow> double" where
  "kForce_ref_torque s =
     copysign (ref_motor_rot_effort s) (std_min \<bar>ref_motor_rot_effort s\<bar> (max_torque s))"

definition kVelocity_ref_vel :: "MotorModelServo \<Rightarrow> double" where
  "kVelocity_ref_vel s =
     copysign (ref_motor_rot_vel s) (std_min \<bar>ref_motor_rot_vel s\<bar> (max_rot_velocity s))"

definition kVelocity_err :: "MotorModelServo \<Rightarrow> double" where
  "kVelocity_err s = dsub (motor_rot_vel s) (kVelocity_ref_vel s)"

text \<open>The first three statements: the measured state is read from the joint.\<close>

definition read_joint :: "MotorModelServo \<Rightarrow> MotorModelServo" where
  "read_joint s =
     s\<lparr>motor_rot_pos := joint_position (joint s),
       motor_rot_vel := joint_velocity (joint s),
       motor_rot_effort := joint_force (joint s)\<rparr>"

definition apply_force :: "MotorModelServo \<Rightarrow> double \<Rightarrow> MotorModelServo" where
  "apply_force s force =
     s\<lparr>joint := SetForce (joint s) (dmul (int_to_double (turning_direction s)) force)\<rparr>"

definition UpdateForcesAndMoments :: "PID_Update \<Rightarrow> MotorModelServo \<Rightarrow> MotorModelServo" where
  "UpdateForcesAndMoments Update s0 =
     (let s = read_joint s0
      in case mode s of
           kPosition \<Rightarrow>
             (let (force, pid') = Update (pid s) (kPosition_err s) (sampling_time s)
              in apply_force (s\<lparr>pid := pid'\<rparr>) force)
         | kForce \<Rightarrow> apply_force s (kForce_ref_torque s)
         | kVelocity \<Rightarrow>
             (let (force, pid') = Update (pid s) (kVelocity_err s) (sampling_time s)
              in apply_force (s\<lparr>pid := pid'\<rparr>) force))"

text \<open>The force of the last \<^verbatim>\<open>SetForce\<close> command the joint received.\<close>

definition applied_force :: "MotorModelServo \<Rightarrow> double" where
  "applied_force s = last (set_force_log (joint s))"

subsection \<open>The clamp the specification states\<close>

text \<open>
  The specification's Force-mode and Velocity-mode clamp, in its words
  \<^verbatim>\<open>copysign(min(|ref|, maxTorque), ref)\<close>: the magnitude of the reference limited to the
  configured limit, with the sign of the reference. The code is compared with it below.
\<close>

definition spec_clamped_reference :: "double \<Rightarrow> double \<Rightarrow> double" where
  "spec_clamped_reference ref limit = copysign (std_min \<bar>ref\<bar> limit) ref"

subsection \<open>Example configurations\<close>

text \<open>
  Concrete inputs at which the model is evaluated below: a stand-in for the external
  \<^verbatim>\<open>Update\<close> that returns the proportional term and records the error it was given, a
  servo state, and a motor element with a complete PID block.
\<close>

definition stub_Update :: PID_Update where
  "stub_Update p err dt = (dmul (pGain p) err, p\<lparr>pErr := err\<rparr>)"

definition servo_example :: MotorModelServo where
  "servo_example =
     \<lparr>mode = kPosition, joint_name = ''servo_joint'', turning_direction = CCW,
      max_rot_velocity = 10, max_torque = 10, max_rot_position = 10, min_rot_position = - 10,
      position_zero_offset = 0, pid = PID_Init 1 0 0 0 0 0 0,
      joint = \<lparr>joint_position = 0, joint_velocity = 0, joint_force = 0, set_force_log = []\<rparr>,
      motor_rot_pos = 0, motor_rot_vel = 0, motor_rot_effort = 0,
      ref_motor_rot_pos = 0, ref_motor_rot_vel = 0, ref_motor_rot_effort = 0,
      sampling_time = rnd (1 / 100)\<rparr>"

text \<open>Force mode, reference effort -50, torque limit 10, spin direction CCW.\<close>

definition force_example :: MotorModelServo where
  "force_example = servo_example\<lparr>mode := kForce, ref_motor_rot_effort := - 50, max_torque := 10\<rparr>"

text \<open>Measured position \<^verbatim>\<open>0.01\<close>, reference position \<^verbatim>\<open>2 * M_PI - 0.01\<close>, limits -10 and 10.\<close>

definition wrap_example :: MotorModelServo where
  "wrap_example =
     servo_example
       \<lparr>joint := (joint servo_example)\<lparr>joint_position := rnd (1 / 100)\<rparr>,
        ref_motor_rot_pos := dsub (dmul 2 M_PI) (rnd (1 / 100))\<rparr>"

definition pid_element_example :: sdf_element where
  "pid_element_example =
     \<lparr>sdf_strings = Map.empty,
      sdf_doubles = [''p'' \<mapsto> 2, ''i'' \<mapsto> 3, ''d'' \<mapsto> 4, ''iMax'' \<mapsto> 5, ''iMin'' \<mapsto> - 5,
                     ''cmdMax'' \<mapsto> 10, ''cmdMin'' \<mapsto> - 10]\<rparr>"

definition motor_element_example :: motor_element where
  "motor_element_example =
     \<lparr>sdf_strings = [''controlMode'' \<mapsto> ''position'', ''spinDirection'' \<mapsto> ''ccw''],
      sdf_doubles = Map.empty,
      joint_control_pid = Some pid_element_example\<rparr>"

section \<open>Properties of the arithmetic model\<close>

lemma binade_bounds: "0 < x \<Longrightarrow> 2 powi binade x \<le> x \<and> x < 2 powi (binade x + 1)"
proof (induction x rule: binade.induct)
  case (1 x)
  show ?case
  proof (cases "2 \<le> x")
    case True
    then have b: "binade x = binade (x / 2) + 1"
      by (subst binade.simps) simp
    from 1 True
    have "2 powi binade (x / 2) \<le> x / 2 \<and> x / 2 < 2 powi (binade (x / 2) + 1)"
      by simp
    then show ?thesis
      unfolding b by (simp add: power_int_add)
  next
    case False
    show ?thesis
    proof (cases "x < 1")
      case True
      then have b: "binade x = binade (2 * x) - 1"
        using 1(3) False by (subst binade.simps) simp
      from 1 True False
      have "2 powi binade (2 * x) \<le> 2 * x \<and> 2 * x < 2 powi (binade (2 * x) + 1)"
        by simp
      then show ?thesis
        unfolding b by (simp add: power_int_add power_int_diff)
    next
      case nlt: False
      then have b: "binade x = 0"
        using 1(3) False by (subst binade.simps) simp
      show ?thesis
        unfolding b using False nlt by simp
    qed
  qed
qed

lemma rnd_minus: "rnd (- x) = - rnd x"
  by (simp add: rnd_def sgn_minus)

text \<open>Rounding moves a positive number by at most half a unit in the last place.\<close>

lemma round_half_even_error: "\<bar>of_int (round_half_even m) - m\<bar> \<le> 1 / 2"
proof -
  have "0 \<le> m - of_int \<lfloor>m\<rfloor>" "m - of_int \<lfloor>m\<rfloor> < 1"
    by linarith+
  then show ?thesis
    unfolding round_half_even_def Let_def by (auto simp: abs_le_iff)
qed

lemma rnd_error:
  assumes "0 < x"
  shows "\<bar>rnd x - x\<bar> \<le> 2 powi (binade x - 53)"
proof -
  define p :: real where "p = 2 powi (binade x - 52)"
  have p: "0 < p"
    unfolding p_def by simp
  have "rnd x - x = (of_int (round_half_even (x / p)) - x / p) * p"
    using assms p by (simp add: rnd_def rnd_pos_def Let_def p_def algebra_simps)
  then have "\<bar>rnd x - x\<bar> = \<bar>of_int (round_half_even (x / p)) - x / p\<bar> * p"
    using p by (simp add: abs_mult)
  also have "\<dots> \<le> (1 / 2) * p"
    using round_half_even_error [of "x / p"] p by (intro mult_right_mono) simp_all
  also have "\<dots> = 2 powi (binade x - 53)"
    unfolding p_def by (simp add: power_int_diff)
  finally show ?thesis .
qed

text \<open>The remainder of a non-negative number lies below the divisor.\<close>

lemma fmod_range:
  assumes "0 \<le> x" "0 < c"
  shows "0 \<le> fmod x c \<and> fmod x c < c"
proof -
  have q: "0 \<le> x / c"
    using assms by simp
  have a: "of_int \<lfloor>x / c\<rfloor> \<le> x / c"
    by linarith
  have b: "x / c < of_int \<lfloor>x / c\<rfloor> + 1"
    by linarith
  have a': "of_int \<lfloor>x / c\<rfloor> * c \<le> x"
    using a assms(2) by (simp only: pos_le_divide_eq)
  have b': "x < (of_int \<lfloor>x / c\<rfloor> + 1) * c"
    using b assms(2) by (simp only: pos_divide_less_eq)
  show ?thesis
    using q a' b' by (simp add: fmod_def trunc_toward_zero_def algebra_simps)
qed

lemmas double_eval =
  rnd_def rnd_pos_def binade.simps round_half_even_def power_int_minus
  dadd_def dsub_def dmul_def int_to_double_def fmod_def trunc_toward_zero_def copysign_def
  std_min_def std_max_def M_PI_def lit_1e_8_def

text \<open>
  Known doubles: \<^verbatim>\<open>0.01\<close> is \<^verbatim>\<open>0x3F847AE147AE147B\<close>, \<^verbatim>\<open>1e-8\<close> is \<^verbatim>\<open>0x3E45798EE2308C3A\<close>,
  and \<^verbatim>\<open>M_PI\<close> and \<^verbatim>\<open>2 * M_PI\<close> are doubles.
\<close>

lemma rnd_one_hundredth: "rnd (1 / 100) = 5764607523034235 / 2 ^ 59"
  by (simp add: double_eval Let_def)

lemma lit_1e_8_value: "lit_1e_8 = 3022314549036573 / 2 ^ 78"
  by (simp add: double_eval Let_def)

lemma rnd_M_PI: "rnd M_PI = M_PI"
  by (simp add: double_eval Let_def)

lemma two_M_PI: "dmul 2 M_PI = 2 * M_PI"
  by (simp add: double_eval Let_def)

lemma int_to_double_CCW: "int_to_double CCW = 1"
  by (simp add: CCW_def double_eval Let_def)

lemma int_to_double_CW: "int_to_double CW = - 1"
  by (simp add: CW_def double_eval Let_def)

lemma dmul_CW: "dmul (int_to_double CW) f = - rnd f"
  using rnd_minus [of f] by (simp add: dmul_def int_to_double_CW)

lemma dmul_CCW: "dmul (int_to_double CCW) f = rnd f"
  by (simp add: dmul_def int_to_double_CCW)

lemma applied_force_apply_force:
  "applied_force (apply_force s f) = dmul (int_to_double (turning_direction s)) f"
  by (simp add: applied_force_def apply_force_def SetForce_def)

section \<open>The reference clamps of Force mode and Velocity mode\<close>

text \<open>
  C1. The claim: in Force mode and in Velocity mode the clamped reference is the reference
  with its magnitude limited to \<open>max_torque\<close> (\<open>max_rot_velocity\<close>) and its sign kept, so
  that a reference of -50 with limit 10 is clamped to -10. The code calls
  \<^verbatim>\<open>std::copysign(ref, std::min(std::abs(ref), limit))\<close>: the magnitude comes from the
  reference and the sign from the minimum, which is not negative for a limit that is not
  negative. At reference -50 and limit 10 both branches compute +50, and in Force mode the
  joint is commanded +50.
\<close>

theorem reference_clamp_keeps_magnitude_drops_sign:
  "kForce_ref_torque (servo_example\<lparr>ref_motor_rot_effort := - 50, max_torque := 10\<rparr>) = 50
   \<and> kVelocity_ref_vel (servo_example\<lparr>ref_motor_rot_vel := - 50, max_rot_velocity := 10\<rparr>) = 50
   \<and> applied_force (UpdateForcesAndMoments stub_Update
         (servo_example\<lparr>mode := kForce, ref_motor_rot_effort := - 50, max_torque := 10\<rparr>)) = 50"
  unfolding UpdateForcesAndMoments_def Let_def
  by (simp add: kForce_ref_torque_def kVelocity_ref_vel_def servo_example_def read_joint_def
      applied_force_apply_force CCW_def double_eval Let_def)

section \<open>The position error\<close>

text \<open>
  C2. The claim: the error Position mode passes to the PID lies in \<open>(-\<pi>, \<pi>]\<close>, and for a
  measured position of 0.01 and a reference of \<open>2\<pi> - 0.01\<close> it is about 0.02. The code
  subtracts a full turn from a difference above \<^verbatim>\<open>M_PI\<close> and has no branch for a difference
  below \<^verbatim>\<open>-M_PI\<close>. At the claim's own input the reference is inside the position limits
  and stays as it is, the difference of the normalized angles is about -6.263, and that is
  the error \<^verbatim>\<open>Update\<close> receives.
\<close>

theorem position_error_below_minus_pi:
  "kPosition_ref_pos (read_joint wrap_example) = dsub (dmul 2 M_PI) (rnd (1 / 100))
   \<and> kPosition_err (read_joint wrap_example) = - (1762929938472897 / 2 ^ 48)
   \<and> kPosition_err (read_joint wrap_example) < - 6
   \<and> \<not> - M_PI < kPosition_err (read_joint wrap_example)
   \<and> kPosition_err (read_joint wrap_example) < - pi
   \<and> pErr (pid (UpdateForcesAndMoments stub_Update wrap_example)) = - (1762929938472897 / 2 ^ 48)"
proof -
  have r: "kPosition_ref_pos (read_joint wrap_example) = dsub (dmul 2 M_PI) (rnd (1 / 100))"
    unfolding kPosition_ref_pos_def
    by (simp add: wrap_example_def servo_example_def read_joint_def double_eval Let_def)
  have m: "motor_rot_pos (read_joint wrap_example) = rnd (1 / 100)"
    by (simp add: wrap_example_def servo_example_def read_joint_def)
  have n1: "NormalizeAngle (rnd (1 / 100)) = 5764607523034235 / 2 ^ 59"
    unfolding NormalizeAngle_def Let_def
    by (simp add: double_eval Let_def)
  have n2: "NormalizeAngle (dsub (dmul 2 M_PI) (rnd (1 / 100))) = 3531489376480007 / 2 ^ 49"
    unfolding NormalizeAngle_def Let_def
    by (simp add: double_eval Let_def)
  have e: "kPosition_err (read_joint wrap_example) = - (1762929938472897 / 2 ^ 48)"
    unfolding kPosition_err_def Let_def r m n1 n2
    by (simp add: double_eval Let_def)
  have u: "pErr (pid (UpdateForcesAndMoments stub_Update wrap_example))
             = kPosition_err (read_joint wrap_example)"
    unfolding UpdateForcesAndMoments_def Let_def
    by (simp add: stub_Update_def apply_force_def wrap_example_def servo_example_def
        read_joint_def)
  have "- (1762929938472897 / 2 ^ 48) < - (4::real)"
    by simp
  also have "- (4::real) < - pi"
    using pi_less_4 by simp
  finally have p: "- (1762929938472897 / 2 ^ 48) < - pi" .
  show ?thesis
    unfolding u unfolding e r using p by (simp add: M_PI_def)
qed

section \<open>The initialization of the PID\<close>

text \<open>
  C3. The claim: with a PID block present, \<^verbatim>\<open>Init\<close> receives the proportional gain from the
  field \<^verbatim>\<open>p\<close>, the integral clamps from \<^verbatim>\<open>iMax\<close> and \<^verbatim>\<open>iMin\<close>, and so on, each field on its
  own. The code reads \<^verbatim>\<open>iMax\<close> into the local \<^verbatim>\<open>p\<close>. For the block p = 2, i = 3, d = 4,
  iMax = 5, iMin = -5, cmdMax = 10, cmdMin = -10 the proportional gain is 5, and the upper
  integral clamp is whatever the unassigned local \<^verbatim>\<open>iMax\<close> holds.
\<close>

theorem pid_gain_taken_from_iMax:
  "pid (InitializeParams motor_element_example u s) = PID_Init 5 3 4 u (- 5) 10 (- 10)
   \<and> pGain (pid (InitializeParams motor_element_example u s)) = 5
   \<and> iMax (pid (InitializeParams motor_element_example u s)) = u"
  by (simp add: InitializeParams_def InitializeParams_pid_def getSdfParam_def
      motor_element_example_def pid_element_example_def PID_Init_def Let_def)

section \<open>Angle normalization\<close>

text \<open>
  For an input that is not negative the result is the remainder, or 0 where the remainder
  is close to a full turn: it lies in the interval from 0 to \<^verbatim>\<open>2 * M_PI\<close>, the full turn
  excluded.
\<close>

lemma NormalizeAngle_nonneg_range:
  assumes "0 \<le> x"
  shows "0 \<le> NormalizeAngle x \<and> NormalizeAngle x < dmul 2 M_PI"
proof -
  have c: "0 < dmul 2 M_PI"
    unfolding two_M_PI by (simp add: M_PI_def)
  from fmod_range [OF _ c, of "\<bar>x\<bar>"]
  have f: "0 \<le> fmod \<bar>x\<bar> (dmul 2 M_PI)" "fmod \<bar>x\<bar> (dmul 2 M_PI) < dmul 2 M_PI"
    by simp_all
  then have cs: "copysign (fmod \<bar>x\<bar> (dmul 2 M_PI)) x = fmod \<bar>x\<bar> (dmul 2 M_PI)"
    using assms by (simp add: copysign_def)
  show ?thesis
    unfolding NormalizeAngle_def Let_def cs using f c by simp
qed

text \<open>
  C4. The claim: for every finite input, \<open>NormalizeAngle\<close> returns a value in the half-open
  interval from 0 to a full turn, the full turn excluded. The code tests for "close to a
  full turn" before it shifts a negative remainder up by \<^verbatim>\<open>2 * M_PI\<close>. For the double
  \<open>- 2^-70\<close> the remainder is \<open>- 2^-70\<close>, it is not within \<^verbatim>\<open>1e-8\<close> of \<^verbatim>\<open>2 * M_PI\<close>, and the
  sum \<^verbatim>\<open>wrapped + 2 * M_PI\<close> rounds to \<^verbatim>\<open>2 * M_PI\<close>: the function returns the full turn itself,
  which it maps to 0 when given it as input.
\<close>

theorem NormalizeAngle_returns_full_turn:
  "rnd (- (1 / 2 ^ 70)) = - (1 / 2 ^ 70)
   \<and> NormalizeAngle (- (1 / 2 ^ 70)) = dmul 2 M_PI
   \<and> \<not> NormalizeAngle (- (1 / 2 ^ 70)) < dmul 2 M_PI
   \<and> NormalizeAngle (dmul 2 M_PI) = 0"
  unfolding NormalizeAngle_def Let_def
  by (simp add: double_eval Let_def)

text \<open>
  C5. The claim: two inputs that are the same angle modulo a full turn, such as \<open>a\<close> and
  \<open>a + 2\<pi>\<close> for a negative \<open>a\<close>, normalize to values within \<open>10^-8\<close> of each other. For
  \<open>a = - 2^-30\<close> the sum \<open>b = a + 2 * M_PI\<close> is exact. The code shifts \<open>a\<close> up to
  \<open>2 * M_PI - 2^-30\<close> after the test for "close to a full turn", and it maps \<open>b\<close>, which
  that test catches, to 0: the two results are almost a full turn apart.
\<close>

theorem NormalizeAngle_differs_on_same_angle:
  "rnd (- (1 / 2 ^ 30)) = - (1 / 2 ^ 30)
   \<and> dadd (- (1 / 2 ^ 30)) (dmul 2 M_PI) = - (1 / 2 ^ 30) + 2 * M_PI
   \<and> NormalizeAngle (- (1 / 2 ^ 30)) = 2 * M_PI - 1 / 2 ^ 30
   \<and> NormalizeAngle (dadd (- (1 / 2 ^ 30)) (dmul 2 M_PI)) = 0
   \<and> \<not> \<bar>NormalizeAngle (- (1 / 2 ^ 30))
           - NormalizeAngle (dadd (- (1 / 2 ^ 30)) (dmul 2 M_PI))\<bar> < 1 / 10 ^ 8"
  unfolding NormalizeAngle_def Let_def
  by (simp add: double_eval Let_def)

section \<open>The reference clamp of Position mode\<close>

text \<open>
  C6. With \<open>min_rot_position \<le> max_rot_position\<close>, the reference position Position mode
  works with lies between the two limits: it is the upper limit for a reference above it,
  the lower limit for a reference below it, and the reference otherwise. The error is
  computed from the clamped value, so it is the error of a state whose reference is the
  clamped one. A reference of 100 with limits -1 and 1 is clamped to 1.
\<close>

theorem position_reference_clamped:
  assumes "min_rot_position s \<le> max_rot_position s"
  shows "min_rot_position s \<le> kPosition_ref_pos s
     \<and> kPosition_ref_pos s \<le> max_rot_position s
     \<and> kPosition_ref_pos s =
         (if max_rot_position s < ref_motor_rot_pos s then max_rot_position s
          else if ref_motor_rot_pos s < min_rot_position s then min_rot_position s
          else ref_motor_rot_pos s)
     \<and> kPosition_err s = kPosition_err (s\<lparr>ref_motor_rot_pos := kPosition_ref_pos s\<rparr>)"
  using assms
  by (simp add: kPosition_ref_pos_def kPosition_err_def std_min_def std_max_def)

theorem position_reference_clamped_witness:
  "min_rot_position
       (servo_example\<lparr>ref_motor_rot_pos := 100, max_rot_position := 1, min_rot_position := - 1\<rparr>)
     \<le> max_rot_position
       (servo_example\<lparr>ref_motor_rot_pos := 100, max_rot_position := 1, min_rot_position := - 1\<rparr>)
   \<and> kPosition_ref_pos
       (servo_example\<lparr>ref_motor_rot_pos := 100, max_rot_position := 1, min_rot_position := - 1\<rparr>)
     = 1"
  using position_reference_clamped
    [of "servo_example\<lparr>ref_motor_rot_pos := 100, max_rot_position := 1, min_rot_position := - 1\<rparr>"]
  by simp

section \<open>The per-tick update\<close>

text \<open>
  C7. Two states that differ only in the spin direction, one CW and one CCW, with the same
  measured state, reference commands, PID state and sampling time: the forces the update
  applies are each other's negation, so equal in magnitude and opposite in sign.
\<close>

theorem applied_force_flips_with_spin_direction:
  "applied_force (UpdateForcesAndMoments Update (s\<lparr>turning_direction := CW\<rparr>))
     = - applied_force (UpdateForcesAndMoments Update (s\<lparr>turning_direction := CCW\<rparr>))
   \<and> \<bar>applied_force (UpdateForcesAndMoments Update (s\<lparr>turning_direction := CW\<rparr>))\<bar>
     = \<bar>applied_force (UpdateForcesAndMoments Update (s\<lparr>turning_direction := CCW\<rparr>))\<bar>"
proof -
  have "applied_force (UpdateForcesAndMoments Update (s\<lparr>turning_direction := CW\<rparr>))
     = - applied_force (UpdateForcesAndMoments Update (s\<lparr>turning_direction := CCW\<rparr>))"
    unfolding UpdateForcesAndMoments_def Let_def
    by (cases "mode s")
       (simp_all add: read_joint_def applied_force_apply_force dmul_CW dmul_CCW
          kPosition_err_def kPosition_ref_pos_def kForce_ref_torque_def
          kVelocity_err_def kVelocity_ref_vel_def split: prod.splits)
  then show ?thesis
    by simp
qed

text \<open>
  In Force mode the update does not call \<^verbatim>\<open>Update\<close>: the PID state after the tick is the
  PID state before it, and the result is the same whatever \<^verbatim>\<open>Update\<close> function the
  controller is given.
\<close>

lemma force_mode_leaves_pid_untouched:
  assumes "mode s = kForce"
  shows "pid (UpdateForcesAndMoments Update s) = pid s
     \<and> UpdateForcesAndMoments Update s = UpdateForcesAndMoments Update' s"
  using assms unfolding UpdateForcesAndMoments_def Let_def
  by (simp add: read_joint_def apply_force_def)

text \<open>
  C8. The claim: in Force mode the applied force is the spin direction times the clamped
  reference effort, with no PID involved. The PID is indeed not involved: at reference
  effort -50 with torque limit 10 and spin direction CCW the PID state is unchanged and the
  result does not depend on \<^verbatim>\<open>Update\<close>. The force is not the direction times the clamped
  reference: the clamp of the specification gives -10, and the code, whose \<^verbatim>\<open>copysign\<close> takes
  the magnitude from the reference and the sign from the minimum, commands +50.
\<close>

theorem force_mode_applies_unclamped_reference:
  "mode force_example = kForce
   \<and> pid (UpdateForcesAndMoments Update force_example) = pid force_example
   \<and> UpdateForcesAndMoments Update force_example = UpdateForcesAndMoments Update' force_example
   \<and> applied_force (UpdateForcesAndMoments Update force_example) = 50
   \<and> dmul (int_to_double (turning_direction force_example))
        (spec_clamped_reference (ref_motor_rot_effort force_example) (max_torque force_example))
       = - 10
   \<and> applied_force (UpdateForcesAndMoments Update force_example)
       \<noteq> dmul (int_to_double (turning_direction force_example))
           (spec_clamped_reference (ref_motor_rot_effort force_example)
              (max_torque force_example))"
proof -
  have m: "mode force_example = kForce"
    by (simp add: force_example_def)
  have f: "applied_force (UpdateForcesAndMoments Update force_example) = 50"
    unfolding UpdateForcesAndMoments_def Let_def
    by (simp add: force_example_def kForce_ref_torque_def servo_example_def read_joint_def
        applied_force_apply_force CCW_def double_eval Let_def)
  have c: "dmul (int_to_double (turning_direction force_example))
        (spec_clamped_reference (ref_motor_rot_effort force_example) (max_torque force_example))
       = - 10"
    by (simp add: force_example_def spec_clamped_reference_def servo_example_def CCW_def
        double_eval Let_def)
  have p: "pid (UpdateForcesAndMoments Update force_example) = pid force_example"
    using force_mode_leaves_pid_untouched [OF m] by blast
  have u: "UpdateForcesAndMoments Update force_example
             = UpdateForcesAndMoments Update' force_example"
    using force_mode_leaves_pid_untouched [OF m] by blast
  have n: "(50::real) \<noteq> - 10"
    by simp
  show ?thesis
    using m p u f c n by (simp only: simp_thms)
qed

text \<open>
  C9. The zero offset is read from the configuration and stored, and the update does not
  use it: in every mode, changing \<open>position_zero_offset\<close> in the state before the tick
  changes nothing in the state after it but that field, and the applied force is the same.
\<close>

theorem zero_offset_has_no_effect:
  "position_zero_offset (InitializeParams motor iMax_uninit s)
     = getSdfParam motor ''zeroOffset'' (position_zero_offset s)
   \<and> UpdateForcesAndMoments Update (s\<lparr>position_zero_offset := z\<rparr>)
     = (UpdateForcesAndMoments Update s)\<lparr>position_zero_offset := z\<rparr>
   \<and> applied_force (UpdateForcesAndMoments Update (s\<lparr>position_zero_offset := z\<rparr>))
     = applied_force (UpdateForcesAndMoments Update s)"
proof -
  have parsed: "position_zero_offset (InitializeParams motor iMax_uninit s)
     = getSdfParam motor ''zeroOffset'' (position_zero_offset s)"
    by (simp add: InitializeParams_def Let_def split: option.splits)
  have "UpdateForcesAndMoments Update (s\<lparr>position_zero_offset := z\<rparr>)
     = (UpdateForcesAndMoments Update s)\<lparr>position_zero_offset := z\<rparr>"
    unfolding UpdateForcesAndMoments_def Let_def
    by (cases "mode s")
       (simp_all add: read_joint_def apply_force_def
          kPosition_err_def kPosition_ref_pos_def kForce_ref_torque_def
          kVelocity_err_def kVelocity_ref_vel_def split: prod.splits)
  with parsed show ?thesis
    by (simp add: applied_force_def)
qed

text \<open>
  C10. In every mode the state after the update is the state before it with the three
  measured-state fields set to the joint's readings, the PID state possibly advanced, and
  one more \<^verbatim>\<open>SetForce\<close> command at the end of the joint's command log. The mode, the spin
  direction, the four limits, the zero offset, the reference commands and the sampling time
  are as before, and so is what the joint reports.
\<close>

theorem update_changes_measured_state_pid_and_one_command:
  "UpdateForcesAndMoments Update s =
     s\<lparr>motor_rot_pos := joint_position (joint s),
       motor_rot_vel := joint_velocity (joint s),
       motor_rot_effort := joint_force (joint s),
       pid := pid (UpdateForcesAndMoments Update s),
       joint := (joint s)\<lparr>set_force_log :=
         set_force_log (joint s) @ [applied_force (UpdateForcesAndMoments Update s)]\<rparr>\<rparr>
   \<and> length (set_force_log (joint (UpdateForcesAndMoments Update s)))
     = Suc (length (set_force_log (joint s)))"
  unfolding UpdateForcesAndMoments_def Let_def
  by (cases "mode s")
     (simp_all add: read_joint_def apply_force_def SetForce_def applied_force_def
        split: prod.splits)

end
